theory Spec2Isabelle
  imports Complex_Main
begin

section \<open>Floating-point values\<close>

text \<open>
  Every number of \<^verbatim>\<open>distributions.pyx\<close> is an IEEE double (a Python float, a
  numpy float64 or a C double). A double is modelled as a real number or one of the
  three special values. Arithmetic on finite values is exact: rounding, overflow,
  underflow and the sign of zero are not modelled. The special values follow IEEE 754,
  which is what C, numpy and (division and power apart) Python compute. The model
  therefore computes what the program computes at inputs where the program's arithmetic is
  exact or meets a special value directly (the log of zero or of a negative number, a
  division by zero, infinity minus infinity); it does not show a product that overflows
  to infinity or a square that underflows to zero, and no statement below is about the
  range of a result over all finite inputs.
\<close>

datatype double = Fin real | PInf | NInf | NaN

instantiation double :: "{plus, uminus, minus, times, inverse, abs, ord}"
begin

fun plus_double :: "double \<Rightarrow> double \<Rightarrow> double" where
  "plus_double NaN b = NaN"
| "plus_double a NaN = NaN"
| "plus_double (Fin x) (Fin y) = Fin (x + y)"
| "plus_double (Fin x) b = b"
| "plus_double a (Fin y) = a"
| "plus_double PInf PInf = PInf"
| "plus_double NInf NInf = NInf"
| "plus_double PInf NInf = NaN"
| "plus_double NInf PInf = NaN"

fun uminus_double :: "double \<Rightarrow> double" where
  "uminus_double (Fin x) = Fin (- x)"
| "uminus_double PInf = NInf"
| "uminus_double NInf = PInf"
| "uminus_double NaN = NaN"

definition minus_double :: "double \<Rightarrow> double \<Rightarrow> double" where
  "minus_double a b = a + (- b)"

fun times_double :: "double \<Rightarrow> double \<Rightarrow> double" where
  "times_double NaN b = NaN"
| "times_double a NaN = NaN"
| "times_double (Fin x) (Fin y) = Fin (x * y)"
| "times_double (Fin x) PInf = (if 0 < x then PInf else if x < 0 then NInf else NaN)"
| "times_double (Fin x) NInf = (if 0 < x then NInf else if x < 0 then PInf else NaN)"
| "times_double PInf (Fin y) = (if 0 < y then PInf else if y < 0 then NInf else NaN)"
| "times_double NInf (Fin y) = (if 0 < y then NInf else if y < 0 then PInf else NaN)"
| "times_double PInf PInf = PInf"
| "times_double NInf NInf = PInf"
| "times_double PInf NInf = NInf"
| "times_double NInf PInf = NInf"

text \<open>
  Division as numpy and IEEE arithmetic do it: a zero divisor gives an infinity or NaN
  (numpy only warns). Python's own float division and Cython's checked C division raise
  instead; see \<open>py_div\<close>.
\<close>

fun divide_double :: "double \<Rightarrow> double \<Rightarrow> double" where
  "divide_double NaN b = NaN"
| "divide_double a NaN = NaN"
| "divide_double (Fin x) (Fin y) =
     (if y \<noteq> 0 then Fin (x / y)
      else if 0 < x then PInf else if x < 0 then NInf else NaN)"
| "divide_double (Fin x) b = Fin 0"
| "divide_double PInf (Fin y) = (if 0 \<le> y then PInf else NInf)"
| "divide_double NInf (Fin y) = (if 0 \<le> y then NInf else PInf)"
| "divide_double a b = NaN"

definition inverse_double :: "double \<Rightarrow> double" where
  "inverse_double a = divide (Fin 1) a"

fun abs_double :: "double \<Rightarrow> double" where
  "abs_double (Fin x) = Fin \<bar>x\<bar>"
| "abs_double PInf = PInf"
| "abs_double NInf = PInf"
| "abs_double NaN = NaN"

text \<open>Comparisons: every comparison with NaN is false.\<close>

fun less_double :: "double \<Rightarrow> double \<Rightarrow> bool" where
  "less_double NaN b = False"
| "less_double a NaN = False"
| "less_double (Fin x) (Fin y) = (x < y)"
| "less_double a PInf = (a \<noteq> PInf)"
| "less_double NInf b = (b \<noteq> NInf)"
| "less_double a b = False"

fun less_eq_double :: "double \<Rightarrow> double \<Rightarrow> bool" where
  "less_eq_double NaN b = False"
| "less_eq_double a NaN = False"
| "less_eq_double (Fin x) (Fin y) = (x \<le> y)"
| "less_eq_double a PInf = True"
| "less_eq_double NInf b = True"
| "less_eq_double a b = False"

instance ..

end

text \<open>\<^verbatim>\<open>a == b\<close> on doubles: NaN equals nothing, itself included.\<close>

definition feq :: "double \<Rightarrow> double \<Rightarrow> bool" where
  "feq a b = (a \<noteq> NaN \<and> a = b)"

definition is_fin :: "double \<Rightarrow> bool" where
  "is_fin a = (case a of Fin x \<Rightarrow> True | _ \<Rightarrow> False)"

text \<open>
  The C library's \<^verbatim>\<open>log\<close>, \<^verbatim>\<open>exp\<close> and \<^verbatim>\<open>sqrt\<close>, under the names the module imports
  them by (numpy.log is the same as \<open>clog\<close>). \<^verbatim>\<open>csqrt\<close> carries a prime, since
  \<open>csqrt\<close> is HOL's complex square root.
\<close>

fun clog :: "double \<Rightarrow> double" where
  "clog (Fin x) = (if 0 < x then Fin (ln x) else if x = 0 then NInf else NaN)"
| "clog PInf = PInf"
| "clog NInf = NaN"
| "clog NaN = NaN"

fun cexp :: "double \<Rightarrow> double" where
  "cexp (Fin x) = Fin (exp x)"
| "cexp PInf = PInf"
| "cexp NInf = Fin 0"
| "cexp NaN = NaN"

fun csqrt' :: "double \<Rightarrow> double" where
  "csqrt' (Fin x) = (if 0 \<le> x then Fin (sqrt x) else NaN)"
| "csqrt' PInf = PInf"
| "csqrt' NInf = NaN"
| "csqrt' NaN = NaN"

section \<open>Python values, exceptions and numpy helpers\<close>

datatype error = NotImplementedError | TypeError | ValueError | IndexError | ZeroDivisionError

text \<open>
  An observation is a float, a category label or a tuple of observations (one component
  per child of a multivariate distribution).
\<close>

datatype val = Num double | Str string | Tup "val list"

text \<open>
  The \<^verbatim>\<open>weights\<close> argument: \<^verbatim>\<open>None\<close>, a Python list or a numpy array. The three
  differ in \<^verbatim>\<open>if weights:\<close>: a list is true when it is not empty, an array of one
  element has that element's truth value, and an array of two or more elements raises
  ValueError ("the truth value of an array with more than one element is ambiguous").
\<close>

datatype weights_arg = WNone | WList "double list" | WArray "double list"

fun truth :: "weights_arg \<Rightarrow> error + bool" where
  "truth WNone = Inr False"
| "truth (WList ws) = Inr (ws \<noteq> [])"
| "truth (WArray []) = Inr False"
| "truth (WArray [w]) = Inr (w \<noteq> Fin 0)"
| "truth (WArray (w # v # ws)) = Inl ValueError"

fun weights_seq :: "weights_arg \<Rightarrow> double list option" where
  "weights_seq WNone = None"
| "weights_seq (WList ws) = Some ws"
| "weights_seq (WArray ws) = Some ws"

text \<open>
  A call either returns or raises; in both cases the object is left in some state
  (Python mutates in place, so an exception does not undo earlier assignments).
\<close>

datatype 'a outcome = Returns 'a | Raises error 'a

fun state_of :: "'a outcome \<Rightarrow> 'a" where
  "state_of (Returns s) = s"
| "state_of (Raises e s) = s"

fun raised :: "'a outcome \<Rightarrow> error option" where
  "raised (Returns s) = None"
| "raised (Raises e s) = Some e"

definition and_then :: "error + 'a \<Rightarrow> ('a \<Rightarrow> error + 'b) \<Rightarrow> error + 'b" where
  "and_then m f = (case m of Inl e \<Rightarrow> Inl e | Inr x \<Rightarrow> f x)"

text \<open>\<^verbatim>\<open>numpy.asarray(items)\<close> for a numeric distribution: the items must be floats.\<close>

fun nums :: "val list \<Rightarrow> double list option" where
  "nums [] = Some []"
| "nums (Num x # vs) = (case nums vs of None \<Rightarrow> None | Some xs \<Rightarrow> Some (x # xs))"
| "nums (v # vs) = None"

fun np_sum :: "double list \<Rightarrow> double" where
  "np_sum [] = Fin 0"
| "np_sum (x # xs) = x + np_sum xs"

definition ones_like :: "'a list \<Rightarrow> double list" where
  "ones_like xs = replicate (length xs) (Fin 1)"

text \<open>
  \<^verbatim>\<open>numpy.average(a, weights=w)\<close>: TypeError when the shapes differ, ZeroDivisionError
  when the weights sum to zero, else the weighted mean.
\<close>

definition np_average :: "double list \<Rightarrow> double list \<Rightarrow> error + double" where
  "np_average xs ws =
     (if length xs \<noteq> length ws then Inl TypeError
      else if np_sum ws = Fin 0 then Inl ZeroDivisionError
      else Inr (np_sum (map2 (*) xs ws) / np_sum ws))"

definition np_dot :: "double list \<Rightarrow> double list \<Rightarrow> error + double" where
  "np_dot xs ys =
     (if length xs \<noteq> length ys then Inl ValueError else Inr (np_sum (map2 (*) xs ys)))"

text \<open>\<^verbatim>\<open>numpy.min\<close> and \<^verbatim>\<open>numpy.max\<close>: ValueError on an empty array; a NaN wins.\<close>

definition fmin :: "double \<Rightarrow> double \<Rightarrow> double" where
  "fmin a b = (if a = NaN \<or> b = NaN then NaN else if b < a then b else a)"

definition fmax :: "double \<Rightarrow> double \<Rightarrow> double" where
  "fmax a b = (if a = NaN \<or> b = NaN then NaN else if a < b then b else a)"

fun np_min :: "double list \<Rightarrow> error + double" where
  "np_min [] = Inl ValueError"
| "np_min (x # xs) = Inr (fold fmin xs x)"

fun np_max :: "double list \<Rightarrow> error + double" where
  "np_max [] = Inl ValueError"
| "np_max (x # xs) = Inr (fold fmax xs x)"

text \<open>
  Python's builtin \<^verbatim>\<open>max\<close> over the two-element array \<^verbatim>\<open>[a, b]\<close>: it keeps the first
  element unless the second compares greater.
\<close>

definition py_max2 :: "double \<Rightarrow> double \<Rightarrow> double" where
  "py_max2 a b = (if a < b then b else a)"

text \<open>Python's float division raises on a zero divisor.\<close>

definition py_div :: "double \<Rightarrow> double \<Rightarrow> error + double" where
  "py_div a b = (if b = Fin 0 then Inl ZeroDivisionError else Inr (a / b))"

section \<open>The data model\<close>

text \<open>
  \<^verbatim>\<open>self.parameters\<close> is a Python list whose shape the class fixes; the constructor of
  \<open>params\<close> is the class of the object (\<^verbatim>\<open>self.__class__\<close>) and its arguments are the
  entries of the list, in order. Arrays (\<open>double list\<close>) are numpy arrays. Children of
  the composite classes are held by value: aliasing between distributions that share a
  child is not modelled.
\<close>

datatype 'd params =
    Distribution
  | UniformDistribution double double
  | NormalDistribution double double
  | LogNormalDistribution double double
  | ExtremeValueDistribution double double double
  | ExponentialDistribution double
  | DiscreteDistribution "val \<Rightarrow> double option"
  | LambdaDistribution "val \<Rightarrow> double"
  | GaussianKernelDensity "double list" double "double list"
  | UniformKernelDensity "double list" double "double list"
  | TriangleKernelDensity "double list" double "double list"
  | MixtureDistribution "'d list" "double list"
  | MultivariateDistribution "'d list" "double list"

text \<open>
  \<^verbatim>\<open>self.summaries\<close>: the empty list \<^verbatim>\<open>[]\<close> is the empty list of any of the list
  shapes. \<open>Unassigned\<close> is the attribute of a class whose \<^verbatim>\<open>__init__\<close> never assigns it
  (ExtremeValue, Lambda, Mixture, Multivariate).
\<close>

datatype summ =
    Unassigned
  | Rows "double list list"
  | Counts "val \<Rightarrow> double option" double
  | Sample "val list" weights_arg

datatype dist = Dist (frozen: bool) (parameters: "dist params") (summaries: summ)

text \<open>\<^verbatim>\<open>len(self.parameters)\<close>: the number of entries of the list.\<close>

fun parameters_len :: "'d params \<Rightarrow> nat" where
  "parameters_len Distribution = 0"
| "parameters_len (UniformDistribution start end') = 2"
| "parameters_len (NormalDistribution mean std) = 2"
| "parameters_len (LogNormalDistribution mu sigma) = 2"
| "parameters_len (ExtremeValueDistribution mu sigma epsilon) = 3"
| "parameters_len (ExponentialDistribution rate) = 1"
| "parameters_len (DiscreteDistribution characters) = 1"
| "parameters_len (LambdaDistribution lambda_funct) = 1"
| "parameters_len (GaussianKernelDensity points bandwidth weights) = 3"
| "parameters_len (UniformKernelDensity points bandwidth weights) = 3"
| "parameters_len (TriangleKernelDensity points bandwidth weights) = 3"
| "parameters_len (MixtureDistribution distributions weights) = 2"
| "parameters_len (MultivariateDistribution distributions weights) = 2"

definition set_parameters :: "dist \<Rightarrow> dist params \<Rightarrow> dist" where
  "set_parameters d p = Dist (frozen d) p (summaries d)"

definition set_summaries :: "dist \<Rightarrow> summ \<Rightarrow> dist" where
  "set_summaries d s = Dist (frozen d) (parameters d) s"

definition freeze :: "dist \<Rightarrow> dist" where
  "freeze d = Dist True (parameters d) (summaries d)"

definition thaw :: "dist \<Rightarrow> dist" where
  "thaw d = Dist False (parameters d) (summaries d)"

section \<open>Constants and helpers of the module\<close>

definition SQRT_2_PI :: real where
  "SQRT_2_PI = 2.50662827463"

definition NEGINF :: double where
  "NEGINF = NInf"

text \<open>
  Modelled from the spec: \<^verbatim>\<open>_log\<close> is imported from \<^verbatim>\<open>utils\<close>, which is not among the
  source files. The spec gives its value on a probability, "log(prob) or -\<infinity> if
  unseen" (an unseen category has probability 0): the log of zero is negative infinity
  and not an error. On every other argument it is taken to be the C library's log.
\<close>

definition utils_log :: "double \<Rightarrow> double" where
  "utils_log x = (if x = Fin 0 then NEGINF else clog x)"

text \<open>
  Python's float power \<^verbatim>\<open>x ** y\<close>, by the cases of CPython's \<^verbatim>\<open>float_pow\<close>. A negative
  base with a fractional exponent raises ValueError in Python 2; Python 3 computes a
  complex number there, which a function returning a C double then rejects with an
  exception as well.
\<close>

definition py_pow :: "double \<Rightarrow> double \<Rightarrow> error + double" where
  "py_pow a b =
     (if b = Fin 0 then Inr (Fin 1)
      else if a = NaN then Inr NaN
      else if b = NaN then Inr (if a = Fin 1 then Fin 1 else NaN)
      else if b = PInf \<or> b = NInf then
        (if \<bar>a\<bar> = Fin 1 then Inr (Fin 1)
         else if (b = PInf) = (Fin 1 < \<bar>a\<bar>) then Inr PInf else Inr (Fin 0))
      else (case b of Fin y \<Rightarrow>
        (case a of
           Fin x \<Rightarrow>
             (if x = 0 then (if y < 0 then Inl ZeroDivisionError else Inr (Fin 0))
              else if 0 < x then Inr (Fin (x powr y))
              else if of_int \<lfloor>y\<rfloor> = y then Inr (Fin (x powi \<lfloor>y\<rfloor>))
              else Inl ValueError)
         | PInf \<Rightarrow> Inr (if 0 < y then PInf else Fin 0)
         | NInf \<Rightarrow>
             Inr (if 0 < y then (if of_int \<lfloor>y\<rfloor> = y \<and> odd \<lfloor>y\<rfloor> then NInf else PInf)
                  else Fin 0)
         | NaN \<Rightarrow> Inr NaN)
       | _ \<Rightarrow> Inr NaN))"

text \<open>The first exception of a list of results, or all the values.\<close>

fun collect :: "(error + 'a) list \<Rightarrow> error + 'a list" where
  "collect [] = Inr []"
| "collect (Inl e # rs) = Inl e"
| "collect (Inr x # rs) = (case collect rs of Inl e \<Rightarrow> Inl e | Inr xs \<Rightarrow> Inr (x # xs))"

text \<open>Iterating over a symbol: a tuple gives its components, a string its characters.\<close>

fun iter :: "val \<Rightarrow> error + val list" where
  "iter (Tup vs) = Inr vs"
| "iter (Str s) = Inr (map (\<lambda>c. Str [c]) s)"
| "iter (Num x) = Inl TypeError"

section \<open>log\_probability\<close>

text \<open>
  An exception raised inside a method is the result \<open>Inl\<close> of the model. Several
  \<^verbatim>\<open>_log_probability\<close> methods are declared \<^verbatim>\<open>cdef double\<close>; in the Cython of the
  source's time such a function cannot hand an exception to its caller (the exception is
  printed and 0.0 is returned), while later Cython propagates it. The model follows the
  statements as written and keeps the exception; no theorem below rests on an input that
  reaches one of these exceptions.
\<close>

text \<open>
  \<^verbatim>\<open>UniformDistribution._log_probability(a, b, symbol)\<close>. The division is a C division
  that Cython checks for a zero divisor. In doubles \<open>1.0 / (b - a)\<close> overflows to infinity
  when \<open>b - a\<close> is small enough; the model's quotient is exact.
\<close>

definition UniformDistribution_log_probability :: "double \<Rightarrow> double \<Rightarrow> double \<Rightarrow> error + double" where
  "UniformDistribution_log_probability a b symbol =
     (if feq symbol a \<and> feq symbol b then Inr (Fin 0)
      else if a \<le> symbol \<and> symbol \<le> b then
        and_then (py_div (Fin 1) (b - a)) (\<lambda>q. Inr (utils_log q))
      else Inr NEGINF)"

text \<open>
  \<^verbatim>\<open>NormalDistribution._log_probability(symbol, epsilon)\<close>. Both divisions are checked C
  divisions. In doubles \<open>sigma ** 2\<close> underflows to zero for a small \<open>sigma\<close> (the check
  then raises) and the squares overflow for large arguments; the model's products are
  exact, so its divisors are zero only when \<open>sigma\<close> is.
\<close>

definition NormalDistribution_log_probability ::
  "double \<Rightarrow> double \<Rightarrow> double \<Rightarrow> double \<Rightarrow> error + double" where
  "NormalDistribution_log_probability mu sigma symbol epsilon =
     (if sigma = Fin 0 then
        (if \<bar>symbol - mu\<bar> < epsilon then Inr (Fin 0) else Inr NEGINF)
      else
        and_then (py_div (Fin 1) (sigma * Fin SQRT_2_PI)) (\<lambda>q1.
        and_then (py_div ((symbol - mu) * (symbol - mu)) (Fin 2 * (sigma * sigma))) (\<lambda>q2.
          Inr (utils_log q1 - q2))))"

text \<open>
  \<^verbatim>\<open>LogNormalDistribution._log_probability(symbol)\<close>: \<open>mu\<close> and \<open>sigma\<close> are Python
  objects there, so the division is Python's and raises on \<open>sigma = 0\<close>.
\<close>

definition LogNormalDistribution_log_probability :: "double \<Rightarrow> double \<Rightarrow> double \<Rightarrow> error + double" where
  "LogNormalDistribution_log_probability mu sigma symbol =
     and_then (py_div (clog symbol - mu) sigma) (\<lambda>q.
       Inr (- clog (symbol * sigma * Fin SQRT_2_PI) - Fin 0.5 * (q * q)))"

text \<open>\<^verbatim>\<open>ExtremeValueDistribution._log_probability(symbol)\<close>.\<close>

definition ExtremeValueDistribution_log_probability ::
  "double \<Rightarrow> double \<Rightarrow> double \<Rightarrow> double \<Rightarrow> error + double" where
  "ExtremeValueDistribution_log_probability mu sigma epsilon symbol =
     and_then (py_div (symbol - mu) sigma) (\<lambda>t.
       if epsilon = Fin 0 then Inr (- clog sigma - t - cexp (- t))
       else
         and_then (py_div (- Fin 1) epsilon) (\<lambda>e1.
         and_then (py_div (- Fin 1) epsilon) (\<lambda>e2.
         and_then (py_pow (Fin 1 + epsilon * t) e2) (\<lambda>pw.
           Inr (- clog sigma + clog (Fin 1 + epsilon * t) * (e1 - Fin 1) - pw)))))"

text \<open>
  \<^verbatim>\<open>ExponentialDistribution.log_probability(symbol)\<close>. In doubles the product
  \<open>rate * symbol\<close> can overflow; the model's product is exact.
\<close>

definition ExponentialDistribution_log_probability :: "double \<Rightarrow> double \<Rightarrow> double" where
  "ExponentialDistribution_log_probability rate symbol = utils_log rate - rate * symbol"

text \<open>\<^verbatim>\<open>self.parameters[0].get(symbol, 0)\<close> and its log.\<close>

definition DiscreteDistribution_log_probability :: "(val \<Rightarrow> double option) \<Rightarrow> val \<Rightarrow> double" where
  "DiscreteDistribution_log_probability characters symbol =
     utils_log (case characters symbol of None \<Rightarrow> Fin 0 | Some p \<Rightarrow> p)"

text \<open>
  The loop of the three kernel densities: \<^verbatim>\<open>for i in xrange(n)\<close> over the points, with
  \<^verbatim>\<open>self.parameters[2][i]\<close> the weight of point \<open>i\<close> (IndexError when there are fewer
  weights than points). \<open>k\<close> computes \<^verbatim>\<open>point_prob\<close> from the point.
\<close>

fun kernel_loop :: "(double \<Rightarrow> error + double) \<Rightarrow> double list \<Rightarrow> double list \<Rightarrow> double \<Rightarrow> error + double" where
  "kernel_loop k [] ws distribution_prob = Inr distribution_prob"
| "kernel_loop k (mu # points) ws distribution_prob =
     (case k mu of
        Inl e \<Rightarrow> Inl e
      | Inr point_prob \<Rightarrow>
          (case ws of
             [] \<Rightarrow> Inl IndexError
           | w # ws' \<Rightarrow> kernel_loop k points ws' (distribution_prob + point_prob * w)))"

text \<open>
  \<^verbatim>\<open>GaussianKernelDensity._log_probability\<close>: the division by the bandwidth is a C
  division, which Cython checks for a zero divisor.
\<close>

definition GaussianKernelDensity_log_probability ::
  "double list \<Rightarrow> double \<Rightarrow> double list \<Rightarrow> double \<Rightarrow> error + double" where
  "GaussianKernelDensity_log_probability points bandwidth weights symbol =
     (let scalar = Fin 1 / Fin SQRT_2_PI in
      and_then
        (kernel_loop
           (\<lambda>mu. and_then (py_div (mu - symbol) bandwidth) (\<lambda>q.
              Inr (scalar * cexp (- Fin 0.5 * (q * q)))))
           points weights (Fin 0))
        (\<lambda>distribution_prob. Inr (utils_log distribution_prob)))"

definition UniformKernelDensity_log_probability ::
  "double list \<Rightarrow> double \<Rightarrow> double list \<Rightarrow> double \<Rightarrow> error + double" where
  "UniformKernelDensity_log_probability points bandwidth weights symbol =
     and_then
       (kernel_loop
          (\<lambda>mu. Inr (if \<bar>mu - symbol\<bar> \<le> bandwidth then Fin 1 else Fin 0))
          points weights (Fin 0))
       (\<lambda>distribution_prob. Inr (utils_log distribution_prob))"

definition TriangleKernelDensity_log_probability ::
  "double list \<Rightarrow> double \<Rightarrow> double list \<Rightarrow> double \<Rightarrow> error + double" where
  "TriangleKernelDensity_log_probability points bandwidth weights symbol =
     and_then
       (kernel_loop
          (\<lambda>mu. let point_prob = bandwidth - \<bar>mu - symbol\<bar>
                in Inr (if point_prob < Fin 0 then Fin 0 else point_prob))
          points weights (Fin 0))
       (\<lambda>distribution_prob. Inr (utils_log distribution_prob))"

text \<open>
  \<^verbatim>\<open>MixtureDistribution.log_probability\<close>. \<open>lps\<close> holds, for each child in order, what
  its \<^verbatim>\<open>log_probability(symbol)\<close> gives; the loop reads the entries it indexes. The
  source's first line, \<^verbatim>\<open>(d, w), n = self.parameters, len(self.parameters)\<close>, binds \<open>n\<close>
  to the length of the list \<^verbatim>\<open>self.parameters\<close> itself, and the sum runs over
  \<^verbatim>\<open>xrange(n)\<close>.
\<close>

definition mixture_term :: "(error + double) list \<Rightarrow> double list \<Rightarrow> nat \<Rightarrow> error + double" where
  "mixture_term lps w i =
     (if i < length lps then
        and_then (lps ! i) (\<lambda>lp.
          if i < length w then Inr (cexp lp * w ! i) else Inl IndexError)
      else Inl IndexError)"

definition MixtureDistribution_log_probability ::
  "nat \<Rightarrow> (error + double) list \<Rightarrow> double list \<Rightarrow> error + double" where
  "MixtureDistribution_log_probability n lps w =
     and_then (collect (map (mixture_term lps w) [0..<n])) (\<lambda>terms.
       Inr (utils_log (np_sum terms)))"

text \<open>
  \<^verbatim>\<open>MultivariateDistribution.log_probability\<close>: \<open>lps\<close> holds the children's results on
  their components, zipped with the weights (\<^verbatim>\<open>zip\<close> stops at the shortest).
\<close>

definition MultivariateDistribution_log_probability :: "((error + double) \<times> double) list \<Rightarrow> error + double" where
  "MultivariateDistribution_log_probability lps =
     and_then (collect (map (\<lambda>(r, w). and_then r (\<lambda>lp. Inr (lp * w))) lps)) (\<lambda>terms.
       Inr (np_sum terms))"

text \<open>
  The dynamic dispatch of \<^verbatim>\<open>d.log_probability(symbol)\<close>. The numeric classes convert
  the symbol to a C double (TypeError otherwise); \<^verbatim>\<open>epsilon\<close> has its default 1E-4.
\<close>

fun the_num :: "val \<Rightarrow> error + double" where
  "the_num (Num x) = Inr x"
| "the_num v = Inl TypeError"

function log_probability :: "dist \<Rightarrow> val \<Rightarrow> error + double" where
  "log_probability (Dist fr p su) symbol =
     (case p of
        Distribution \<Rightarrow> Inl NotImplementedError
      | UniformDistribution a b \<Rightarrow>
          and_then (the_num symbol) (UniformDistribution_log_probability a b)
      | NormalDistribution mu sigma \<Rightarrow>
          and_then (the_num symbol) (\<lambda>x.
            NormalDistribution_log_probability mu sigma x (Fin (1 / 10 ^ 4)))
      | LogNormalDistribution mu sigma \<Rightarrow>
          and_then (the_num symbol) (LogNormalDistribution_log_probability mu sigma)
      | ExtremeValueDistribution mu sigma epsilon \<Rightarrow>
          and_then (the_num symbol) (ExtremeValueDistribution_log_probability mu sigma epsilon)
      | ExponentialDistribution rate \<Rightarrow>
          and_then (the_num symbol) (\<lambda>x. Inr (ExponentialDistribution_log_probability rate x))
      | DiscreteDistribution characters \<Rightarrow>
          Inr (DiscreteDistribution_log_probability characters symbol)
      | LambdaDistribution lambda_funct \<Rightarrow> Inr (lambda_funct symbol)
      | GaussianKernelDensity points bandwidth weights \<Rightarrow>
          and_then (the_num symbol) (GaussianKernelDensity_log_probability points bandwidth weights)
      | UniformKernelDensity points bandwidth weights \<Rightarrow>
          and_then (the_num symbol) (UniformKernelDensity_log_probability points bandwidth weights)
      | TriangleKernelDensity points bandwidth weights \<Rightarrow>
          and_then (the_num symbol) (TriangleKernelDensity_log_probability points bandwidth weights)
      | MixtureDistribution ds w \<Rightarrow>
          MixtureDistribution_log_probability (parameters_len p)
            (map (\<lambda>d. log_probability d symbol) ds) w
      | MultivariateDistribution ds ws \<Rightarrow>
          and_then (iter symbol) (\<lambda>obs.
            MultivariateDistribution_log_probability
              (map (\<lambda>((d, ob), w). (log_probability d ob, w)) (zip (zip ds obs) ws))))"
  by pat_completeness auto
termination
proof -
  have child: "size x < Suc (Suc (size_list size xs))" if "x \<in> set xs" for x :: dist and xs
    using size_list_estimation' [OF that, of "size x" size] by simp
  have left: "a \<in> set xs" if "((a, b), c) \<in> set (zip (zip xs ys) zs)"
    for a :: dist and b :: val and c :: double and xs ys zs
    using that by (auto dest!: set_zip_leftD)
  show ?thesis
    by (relation "measure (\<lambda>(d, symbol). size d)") (auto dest!: left intro: child)
qed

section \<open>Constructors and copy\<close>

text \<open>
  Each \<^verbatim>\<open>__init__\<close> takes its \<^verbatim>\<open>frozen\<close> keyword as an option: \<open>None\<close> is the
  keyword left out, so that the default written in the signature applies.
\<close>

definition or_default :: "'a option \<Rightarrow> 'a \<Rightarrow> 'a" where
  "or_default a d = (case a of None \<Rightarrow> d | Some x \<Rightarrow> x)"

definition Distribution_init :: dist where
  "Distribution_init = Dist False Distribution (Rows [])"

definition UniformDistribution_init :: "double \<Rightarrow> double \<Rightarrow> bool option \<Rightarrow> dist" where
  "UniformDistribution_init start end' frozen' =
     Dist (or_default frozen' False) (UniformDistribution start end') (Rows [])"

definition NormalDistribution_init :: "double \<Rightarrow> double \<Rightarrow> bool option \<Rightarrow> dist" where
  "NormalDistribution_init mean std frozen' =
     Dist (or_default frozen' False) (NormalDistribution mean std) (Rows [])"

definition LogNormalDistribution_init :: "double \<Rightarrow> double \<Rightarrow> bool option \<Rightarrow> dist" where
  "LogNormalDistribution_init mu sigma frozen' =
     Dist (or_default frozen' False) (LogNormalDistribution mu sigma) (Rows [])"

definition ExtremeValueDistribution_init :: "double \<Rightarrow> double \<Rightarrow> double \<Rightarrow> bool option \<Rightarrow> dist" where
  "ExtremeValueDistribution_init mu sigma epsilon frozen' =
     Dist (or_default frozen' True) (ExtremeValueDistribution mu sigma epsilon) Unassigned"

definition ExponentialDistribution_init :: "double \<Rightarrow> bool option \<Rightarrow> dist" where
  "ExponentialDistribution_init rate frozen' =
     Dist (or_default frozen' False) (ExponentialDistribution rate) (Rows [])"

definition DiscreteDistribution_init :: "(val \<Rightarrow> double option) \<Rightarrow> bool option \<Rightarrow> dist" where
  "DiscreteDistribution_init characters frozen' =
     Dist (or_default frozen' False) (DiscreteDistribution characters) (Counts Map.empty (Fin 0))"

definition LambdaDistribution_init :: "(val \<Rightarrow> double) \<Rightarrow> bool option \<Rightarrow> dist" where
  "LambdaDistribution_init lambda_funct frozen' =
     Dist (or_default frozen' True) (LambdaDistribution lambda_funct) Unassigned"

text \<open>
  The weights of the kernel densities and of a mixture, as \<^verbatim>\<open>__init__\<close> and the kernel
  densities' \<^verbatim>\<open>from_sample\<close> compute them for \<open>n\<close> points:
  \<^verbatim>\<open>if weights: weights = numpy.array(weights) / numpy.sum(weights)\<close>,
  \<^verbatim>\<open>else: weights = numpy.ones(n) / n\<close>.
\<close>

definition normalized_weights :: "nat \<Rightarrow> weights_arg \<Rightarrow> error + double list" where
  "normalized_weights n weights =
     and_then (truth weights) (\<lambda>t.
       if t then
         (let ws = or_default (weights_seq weights) [] in Inr (map (\<lambda>w. w / np_sum ws) ws))
       else Inr (replicate n (Fin 1 / Fin (real n))))"

definition GaussianKernelDensity_init ::
  "double list \<Rightarrow> double \<Rightarrow> weights_arg \<Rightarrow> bool option \<Rightarrow> error + dist" where
  "GaussianKernelDensity_init points bandwidth weights frozen' =
     and_then (normalized_weights (length points) weights) (\<lambda>ws.
       Inr (Dist (or_default frozen' False) (GaussianKernelDensity points bandwidth ws) (Rows [])))"

definition UniformKernelDensity_init ::
  "double list \<Rightarrow> double \<Rightarrow> weights_arg \<Rightarrow> bool option \<Rightarrow> error + dist" where
  "UniformKernelDensity_init points bandwidth weights frozen' =
     and_then (normalized_weights (length points) weights) (\<lambda>ws.
       Inr (Dist (or_default frozen' False) (UniformKernelDensity points bandwidth ws) (Rows [])))"

definition TriangleKernelDensity_init ::
  "double list \<Rightarrow> double \<Rightarrow> weights_arg \<Rightarrow> bool option \<Rightarrow> error + dist" where
  "TriangleKernelDensity_init points bandwidth weights frozen' =
     and_then (normalized_weights (length points) weights) (\<lambda>ws.
       Inr (Dist (or_default frozen' False) (TriangleKernelDensity points bandwidth ws) (Rows [])))"

definition MixtureDistribution_init :: "dist list \<Rightarrow> weights_arg \<Rightarrow> bool option \<Rightarrow> error + dist" where
  "MixtureDistribution_init distributions weights frozen' =
     and_then (normalized_weights (length distributions) weights) (\<lambda>ws.
       Inr (Dist (or_default frozen' False) (MixtureDistribution distributions ws) Unassigned))"

definition MultivariateDistribution_init :: "dist list \<Rightarrow> weights_arg \<Rightarrow> bool option \<Rightarrow> error + dist" where
  "MultivariateDistribution_init distributions weights frozen' =
     and_then (truth weights) (\<lambda>t.
       let ws = (if t then or_default (weights_seq weights) []
                 else replicate (length distributions) (Fin 1))
       in Inr (Dist (or_default frozen' False) (MultivariateDistribution distributions ws) Unassigned))"

text \<open>
  \<^verbatim>\<open>Distribution.copy\<close>, inherited by every class:
  \<^verbatim>\<open>return self.__class__( *self.parameters )\<close>. The constructor of the object's class
  is called with the entries of \<^verbatim>\<open>self.parameters\<close> as positional arguments and no
  keyword, so \<^verbatim>\<open>frozen\<close> takes its default; stored weights are numpy arrays.
\<close>

definition copy :: "dist \<Rightarrow> error + dist" where
  "copy d =
     (case parameters d of
        Distribution \<Rightarrow> Inr Distribution_init
      | UniformDistribution a b \<Rightarrow> Inr (UniformDistribution_init a b None)
      | NormalDistribution mean std \<Rightarrow> Inr (NormalDistribution_init mean std None)
      | LogNormalDistribution mu sigma \<Rightarrow> Inr (LogNormalDistribution_init mu sigma None)
      | ExtremeValueDistribution mu sigma epsilon \<Rightarrow>
          Inr (ExtremeValueDistribution_init mu sigma epsilon None)
      | ExponentialDistribution rate \<Rightarrow> Inr (ExponentialDistribution_init rate None)
      | DiscreteDistribution characters \<Rightarrow> Inr (DiscreteDistribution_init characters None)
      | LambdaDistribution lambda_funct \<Rightarrow> Inr (LambdaDistribution_init lambda_funct None)
      | GaussianKernelDensity points bandwidth weights \<Rightarrow>
          GaussianKernelDensity_init points bandwidth (WArray weights) None
      | UniformKernelDensity points bandwidth weights \<Rightarrow>
          UniformKernelDensity_init points bandwidth (WArray weights) None
      | TriangleKernelDensity points bandwidth weights \<Rightarrow>
          TriangleKernelDensity_init points bandwidth (WArray weights) None
      | MixtureDistribution distributions weights \<Rightarrow>
          MixtureDistribution_init distributions (WArray weights) None
      | MultivariateDistribution distributions weights \<Rightarrow>
          MultivariateDistribution_init distributions (WArray weights) None)"

section \<open>from\_sample\<close>

text \<open>
  The model is typed where Python is not: a numeric class fits floats. Items of another
  kind are outside of what the model describes; \<open>TypeError\<close> stands for them, raised
  where the source first computes with the items, and the object is left as it was.
  A method applied to an object of another class is a TypeError as well.
\<close>

text \<open>\<^verbatim>\<open>Distribution.from_sample(items, weights=None)\<close>, the base class's.\<close>

definition Distribution_from_sample :: "dist \<Rightarrow> val list \<Rightarrow> weights_arg \<Rightarrow> dist outcome" where
  "Distribution_from_sample d items weights =
     (if frozen d then Returns d else Raises NotImplementedError d)"

text \<open>\<^verbatim>\<open>UniformDistribution.from_sample(items, weights=None, inertia=0.0)\<close>.\<close>

definition UniformDistribution_from_sample ::
  "dist \<Rightarrow> val list \<Rightarrow> weights_arg \<Rightarrow> double \<Rightarrow> dist outcome" where
  "UniformDistribution_from_sample d items weights inertia =
     (case parameters d of
        UniformDistribution prior_min prior_max \<Rightarrow>
          if frozen d then Returns d
          else
            let items = (case weights_seq weights of
                           None \<Rightarrow> items
                         | Some ws \<Rightarrow> map fst (filter (\<lambda>(item, weight). Fin 0 < weight) (zip items ws)))
            in if length items = 0 then Returns d
               else (case nums items of
                       None \<Rightarrow> Raises TypeError d
                     | Some xs \<Rightarrow>
                         (case np_min xs of
                            Inl e \<Rightarrow> Raises e d
                          | Inr lo \<Rightarrow>
                              (case np_max xs of
                                 Inl e \<Rightarrow> Raises e d
                               | Inr hi \<Rightarrow>
                                   Returns (set_parameters d
                                     (UniformDistribution
                                        (prior_min * inertia + lo * (Fin 1 - inertia))
                                        (prior_max * inertia + hi * (Fin 1 - inertia)))))))
      | _ \<Rightarrow> Raises TypeError d)"

text \<open>
  The fit shared, line for line, by \<^verbatim>\<open>NormalDistribution.from_sample\<close> (on the items)
  and \<^verbatim>\<open>LogNormalDistribution.from_sample\<close> (on their logs), from the test
  \<^verbatim>\<open>weights.sum() == 0\<close> to \<^verbatim>\<open>std = max( numpy.array([std, min_std]) )\<close>: \<open>None\<close> is
  the early return, else the mean and the floored standard deviation.
\<close>

definition fit_mean_std ::
  "double list \<Rightarrow> double list \<Rightarrow> double \<Rightarrow> double \<Rightarrow> error + (double \<times> double) option" where
  "fit_mean_std xs ws prior_std min_std =
     (if np_sum ws = Fin 0 then Inr None
      else
        and_then (np_average xs ws) (\<lambda>mean.
          and_then
            (if 1 < length (filter (\<lambda>w. w \<noteq> Fin 0) ws) then
               and_then (np_dot (map (\<lambda>x. x * x - mean * mean) xs) ws) (\<lambda>dot.
                 let variance = dot / np_sum ws
                 in Inr (if Fin 0 \<le> variance then csqrt' variance else Fin 0))
             else Inr prior_std)
            (\<lambda>std. Inr (Some (mean, py_max2 std min_std)))))"

text \<open>\<^verbatim>\<open>NormalDistribution.from_sample(items, weights=None, inertia=0.0, min_std=0.01)\<close>.\<close>

definition NormalDistribution_from_sample ::
  "dist \<Rightarrow> val list \<Rightarrow> weights_arg \<Rightarrow> double \<Rightarrow> double \<Rightarrow> dist outcome" where
  "NormalDistribution_from_sample d items weights inertia min_std =
     (case parameters d of
        NormalDistribution prior_mean prior_std \<Rightarrow>
          if length items = 0 \<or> frozen d then Returns d
          else (case nums items of
                  None \<Rightarrow> Raises TypeError d
                | Some xs \<Rightarrow>
                    (case fit_mean_std xs (or_default (weights_seq weights) (ones_like xs))
                            prior_std min_std of
                       Inl e \<Rightarrow> Raises e d
                     | Inr None \<Rightarrow> Returns d
                     | Inr (Some (mean, std)) \<Rightarrow>
                         Returns (set_parameters d
                           (NormalDistribution
                              (prior_mean * inertia + mean * (Fin 1 - inertia))
                              (prior_std * inertia + std * (Fin 1 - inertia))))))
      | _ \<Rightarrow> Raises TypeError d)"

text \<open>\<^verbatim>\<open>LogNormalDistribution.from_sample(items, weights=None, inertia=0.0, min_std=0.01)\<close>.\<close>

definition LogNormalDistribution_from_sample ::
  "dist \<Rightarrow> val list \<Rightarrow> weights_arg \<Rightarrow> double \<Rightarrow> double \<Rightarrow> dist outcome" where
  "LogNormalDistribution_from_sample d items weights inertia min_std =
     (case parameters d of
        LogNormalDistribution prior_mean prior_std \<Rightarrow>
          if length items = 0 \<or> frozen d then Returns d
          else (case nums items of
                  None \<Rightarrow> Raises TypeError d
                | Some xs \<Rightarrow>
                    (case fit_mean_std (map clog xs) (or_default (weights_seq weights) (ones_like xs))
                            prior_std min_std of
                       Inl e \<Rightarrow> Raises e d
                     | Inr None \<Rightarrow> Returns d
                     | Inr (Some (mean, std)) \<Rightarrow>
                         Returns (set_parameters d
                           (LogNormalDistribution
                              (prior_mean * inertia + mean * (Fin 1 - inertia))
                              (prior_std * inertia + std * (Fin 1 - inertia))))))
      | _ \<Rightarrow> Raises TypeError d)"

text \<open>\<^verbatim>\<open>ExponentialDistribution.from_sample(items, weights=None, inertia=0.0)\<close>.\<close>

definition ExponentialDistribution_from_sample ::
  "dist \<Rightarrow> val list \<Rightarrow> weights_arg \<Rightarrow> double \<Rightarrow> dist outcome" where
  "ExponentialDistribution_from_sample d items weights inertia =
     (case parameters d of
        ExponentialDistribution prior_rate \<Rightarrow>
          if length items = 0 \<or> frozen d then Returns d
          else (case nums items of
                  None \<Rightarrow> Raises TypeError d
                | Some xs \<Rightarrow>
                    (let ws = or_default (weights_seq weights) (ones_like xs)
                     in if np_sum ws = Fin 0 then Returns d
                        else (case np_average xs ws of
                                Inl e \<Rightarrow> Raises e d
                              | Inr weighted_mean \<Rightarrow>
                                  (let rate = Fin 1 / weighted_mean
                                   in Returns (set_parameters d
                                        (ExponentialDistribution
                                           (prior_rate * inertia + rate * (Fin 1 - inertia))))))))
      | _ \<Rightarrow> Raises TypeError d)"

text \<open>
  \<^verbatim>\<open>DiscreteDistribution.from_sample(items, weights=None, inertia=0.0)\<close>. A dictionary is
  a map; \<open>add_weight\<close> is the \<^verbatim>\<open>try: characters[character] += weight\<close> /
  \<^verbatim>\<open>except KeyError: characters[character] = weight\<close> of its loops.
\<close>

definition add_weight :: "(val \<Rightarrow> double option) \<Rightarrow> val \<Rightarrow> double \<Rightarrow> (val \<Rightarrow> double option)" where
  "add_weight characters character weight =
     characters(character \<mapsto>
       (case characters character of None \<Rightarrow> weight | Some v \<Rightarrow> v + weight))"

fun tally :: "(val \<Rightarrow> double option) \<Rightarrow> (val \<times> double) list \<Rightarrow> (val \<Rightarrow> double option)" where
  "tally characters [] = characters"
| "tally characters ((character, weight) # rest) =
     tally (add_weight characters character weight) rest"

definition scale_all :: "(val \<Rightarrow> double option) \<Rightarrow> (double \<Rightarrow> double) \<Rightarrow> (val \<Rightarrow> double option)" where
  "scale_all characters f = (\<lambda>character. map_option f (characters character))"

text \<open>
  \<^verbatim>\<open>for character, weight in prior_characters.items()\<close>: every key of the prior map is
  added with \<open>weight * inertia\<close>.
\<close>

definition add_prior ::
  "(val \<Rightarrow> double option) \<Rightarrow> (val \<Rightarrow> double option) \<Rightarrow> double \<Rightarrow> (val \<Rightarrow> double option)" where
  "add_prior characters prior_characters inertia =
     (\<lambda>character.
        case prior_characters character of
          None \<Rightarrow> characters character
        | Some weight \<Rightarrow>
            Some (case characters character of
                    None \<Rightarrow> weight * inertia
                  | Some v \<Rightarrow> v + weight * inertia))"

definition DiscreteDistribution_from_sample ::
  "dist \<Rightarrow> val list \<Rightarrow> weights_arg \<Rightarrow> double \<Rightarrow> dist outcome" where
  "DiscreteDistribution_from_sample d items weights inertia =
     (case parameters d of
        DiscreteDistribution prior_characters \<Rightarrow>
          if length items = 0 \<or> frozen d then Returns d
          else
            let n = length items;
                ws = (case weights_seq weights of
                        None \<Rightarrow> replicate n (Fin 1 / Fin (real n))
                      | Some ws \<Rightarrow> map (\<lambda>w. w / np_sum ws) ws);
                characters = tally Map.empty (zip items ws);
                characters = scale_all characters (\<lambda>weight. weight * (Fin 1 - inertia));
                characters = add_prior characters prior_characters inertia
            in Returns (set_parameters d (DiscreteDistribution characters))
      | _ \<Rightarrow> Raises TypeError d)"

text \<open>
  \<^verbatim>\<open>from_sample(points, weights=None, inertia=0.0)\<close> of the three kernel densities, whose
  bodies are the same text: the new points and weights, from the stored ones.
\<close>

definition KernelDensity_from_sample ::
  "double list \<Rightarrow> double list \<Rightarrow> val list \<Rightarrow> weights_arg \<Rightarrow> double \<Rightarrow> error + (double list \<times> double list)" where
  "KernelDensity_from_sample old_points old_weights points weights inertia =
     (case nums points of
        None \<Rightarrow> Inl TypeError
      | Some pts \<Rightarrow>
          and_then (normalized_weights (length pts) weights) (\<lambda>ws.
            if inertia = Fin 0 then Inr (pts, ws)
            else Inr (old_points @ pts,
                      map (\<lambda>w. w * inertia) old_weights @ map (\<lambda>w. w * (Fin 1 - inertia)) ws)))"

definition GaussianKernelDensity_from_sample ::
  "dist \<Rightarrow> val list \<Rightarrow> weights_arg \<Rightarrow> double \<Rightarrow> dist outcome" where
  "GaussianKernelDensity_from_sample d points weights inertia =
     (case parameters d of
        GaussianKernelDensity old_points bandwidth old_weights \<Rightarrow>
          if frozen d then Returns d
          else (case KernelDensity_from_sample old_points old_weights points weights inertia of
                  Inl e \<Rightarrow> Raises e d
                | Inr (pts, ws) \<Rightarrow> Returns (set_parameters d (GaussianKernelDensity pts bandwidth ws)))
      | _ \<Rightarrow> Raises TypeError d)"

definition UniformKernelDensity_from_sample ::
  "dist \<Rightarrow> val list \<Rightarrow> weights_arg \<Rightarrow> double \<Rightarrow> dist outcome" where
  "UniformKernelDensity_from_sample d points weights inertia =
     (case parameters d of
        UniformKernelDensity old_points bandwidth old_weights \<Rightarrow>
          if frozen d then Returns d
          else (case KernelDensity_from_sample old_points old_weights points weights inertia of
                  Inl e \<Rightarrow> Raises e d
                | Inr (pts, ws) \<Rightarrow> Returns (set_parameters d (UniformKernelDensity pts bandwidth ws)))
      | _ \<Rightarrow> Raises TypeError d)"

definition TriangleKernelDensity_from_sample ::
  "dist \<Rightarrow> val list \<Rightarrow> weights_arg \<Rightarrow> double \<Rightarrow> dist outcome" where
  "TriangleKernelDensity_from_sample d points weights inertia =
     (case parameters d of
        TriangleKernelDensity old_points bandwidth old_weights \<Rightarrow>
          if frozen d then Returns d
          else (case KernelDensity_from_sample old_points old_weights points weights inertia of
                  Inl e \<Rightarrow> Raises e d
                | Inr (pts, ws) \<Rightarrow> Returns (set_parameters d (TriangleKernelDensity pts bandwidth ws)))
      | _ \<Rightarrow> Raises TypeError d)"

text \<open>\<^verbatim>\<open>MixtureDistribution.from_sample(items, weights=None)\<close>.\<close>

definition MixtureDistribution_from_sample :: "dist \<Rightarrow> val list \<Rightarrow> weights_arg \<Rightarrow> dist outcome" where
  "MixtureDistribution_from_sample d items weights = Raises NotImplementedError d"

text \<open>
  \<^verbatim>\<open>for i, d in enumerate( self.parameters[0] )\<close> with a call that mutates child \<open>d\<close>:
  the loop stops at the first child that raises, and the children before it stay
  updated.
\<close>

fun each_child :: "(nat \<Rightarrow> 'd \<Rightarrow> 'd outcome) \<Rightarrow> nat \<Rightarrow> 'd list \<Rightarrow> 'd list outcome" where
  "each_child f i [] = Returns []"
| "each_child f i (d # ds) =
     (case f i d of
        Raises e d' \<Rightarrow> Raises e (d' # ds)
      | Returns d' \<Rightarrow>
          (case each_child f (Suc i) ds of
             Raises e ds' \<Rightarrow> Raises e (d' # ds')
           | Returns ds' \<Rightarrow> Returns (d' # ds')))"

lemma each_child_cong [fundef_cong]:
  "ds = ds' \<Longrightarrow> i = i' \<Longrightarrow> (\<And>j d. d \<in> set ds' \<Longrightarrow> f j d = g j d) \<Longrightarrow>
   each_child f i ds = each_child g i' ds'"
  by (induction ds arbitrary: i i' ds') (auto split: outcome.splits)

text \<open>
  \<^verbatim>\<open>numpy.asarray(items)[:, i]\<close>: column \<open>i\<close> of the items of a multivariate
  distribution. The items form a two-dimensional array when they are tuples of one
  length; otherwise, and when \<open>i\<close> is not a column, the index raises IndexError.
\<close>

fun row :: "val \<Rightarrow> val list option" where
  "row (Tup vs) = Some vs"
| "row v = None"

definition column :: "val list \<Rightarrow> nat \<Rightarrow> error + val list" where
  "column items i =
     (case those (map row items) of
        None \<Rightarrow> Inl IndexError
      | Some [] \<Rightarrow> Inl IndexError
      | Some (r # rs) \<Rightarrow>
          if list_all (\<lambda>r'. length r' = length r) rs \<and> i < length r
          then Inr (map (\<lambda>r'. r' ! i) (r # rs))
          else Inl IndexError)"

text \<open>
  The dynamic dispatch of \<^verbatim>\<open>d.from_sample(items, weights, inertia=...)\<close>. The
  \<^verbatim>\<open>inertia\<close> keyword is an option: \<open>None\<close> is the keyword left out. The base class's
  and the mixture's \<^verbatim>\<open>from_sample\<close> have no such parameter, so passing it is a
  TypeError before the body runs. \<^verbatim>\<open>min_std\<close> has its default 0.01.
  \<^verbatim>\<open>MultivariateDistribution.from_sample\<close> is the last case.
\<close>

function from_sample :: "dist \<Rightarrow> val list \<Rightarrow> weights_arg \<Rightarrow> double option \<Rightarrow> dist outcome" where
  "from_sample (Dist fr p su) items weights inertia =
     (let d = Dist fr p su in
      case p of
        Distribution \<Rightarrow>
          (case inertia of None \<Rightarrow> Distribution_from_sample d items weights
           | Some i \<Rightarrow> Raises TypeError d)
      | UniformDistribution a b \<Rightarrow>
          UniformDistribution_from_sample d items weights (or_default inertia (Fin 0))
      | NormalDistribution mean std \<Rightarrow>
          NormalDistribution_from_sample d items weights (or_default inertia (Fin 0)) (Fin (1 / 100))
      | LogNormalDistribution mu sigma \<Rightarrow>
          LogNormalDistribution_from_sample d items weights (or_default inertia (Fin 0)) (Fin (1 / 100))
      | ExtremeValueDistribution mu sigma epsilon \<Rightarrow>
          (case inertia of None \<Rightarrow> Distribution_from_sample d items weights
           | Some i \<Rightarrow> Raises TypeError d)
      | ExponentialDistribution rate \<Rightarrow>
          ExponentialDistribution_from_sample d items weights (or_default inertia (Fin 0))
      | DiscreteDistribution characters \<Rightarrow>
          DiscreteDistribution_from_sample d items weights (or_default inertia (Fin 0))
      | LambdaDistribution lambda_funct \<Rightarrow>
          (case inertia of None \<Rightarrow> Distribution_from_sample d items weights
           | Some i \<Rightarrow> Raises TypeError d)
      | GaussianKernelDensity points bandwidth ws \<Rightarrow>
          GaussianKernelDensity_from_sample d items weights (or_default inertia (Fin 0))
      | UniformKernelDensity points bandwidth ws \<Rightarrow>
          UniformKernelDensity_from_sample d items weights (or_default inertia (Fin 0))
      | TriangleKernelDensity points bandwidth ws \<Rightarrow>
          TriangleKernelDensity_from_sample d items weights (or_default inertia (Fin 0))
      | MixtureDistribution distributions ws \<Rightarrow>
          (case inertia of None \<Rightarrow> MixtureDistribution_from_sample d items weights
           | Some i \<Rightarrow> Raises TypeError d)
      | MultivariateDistribution distributions ws \<Rightarrow>
          if frozen d then Returns d
          else
            (case each_child
                    (\<lambda>i child.
                       case column items i of
                         Inl e \<Rightarrow> Raises e child
                       | Inr col \<Rightarrow> from_sample child col weights (Some (or_default inertia (Fin 0))))
                    0 distributions of
               Raises e distributions' \<Rightarrow>
                 Raises e (set_parameters d (MultivariateDistribution distributions' ws))
             | Returns distributions' \<Rightarrow>
                 Returns (set_parameters d (MultivariateDistribution distributions' ws))))"
  by pat_completeness auto
termination
proof -
  have child: "size x < Suc (Suc (size_list size xs))" if "x \<in> set xs" for x :: dist and xs
    using size_list_estimation' [OF that, of "size x" size] by simp
  show ?thesis
    by (relation "measure (\<lambda>(d, items, weights, inertia). size d)") (auto intro: child)
qed

section \<open>summarize\<close>

text \<open>
  \<^verbatim>\<open>NormalDistribution.summarize(items, weights=None)\<close>. With \<^verbatim>\<open>weights=None\<close> the
  first test compares \<^verbatim>\<open>numpy.sum(None)\<close>, which is \<^verbatim>\<open>None\<close>, with 0 and fails, so the
  early return needs weights. The method has no test of \<^verbatim>\<open>self.frozen\<close>.
\<close>

definition NormalDistribution_summarize :: "dist \<Rightarrow> val list \<Rightarrow> weights_arg \<Rightarrow> dist outcome" where
  "NormalDistribution_summarize d items weights =
     (if (case weights_seq weights of None \<Rightarrow> False | Some ws \<Rightarrow> np_sum ws = Fin 0)
      then Returns d
      else (case nums items of
              None \<Rightarrow> Raises TypeError d
            | Some xs \<Rightarrow>
                (let ws = or_default (weights_seq weights) (ones_like xs) in
                 case np_average xs ws of
                   Inl e \<Rightarrow> Raises e d
                 | Inr mean \<Rightarrow>
                     (case np_dot (map (\<lambda>x. x * x - mean * mean) xs) ws of
                        Inl e \<Rightarrow> Raises e d
                      | Inr dot \<Rightarrow>
                          (let variance = dot / np_sum ws in
                           case summaries d of
                             Rows rows \<Rightarrow>
                               Returns (set_summaries d (Rows (rows @ [[mean, variance, np_sum ws]])))
                           | _ \<Rightarrow> Raises TypeError d)))))"

section \<open>from\_summaries\<close>

text \<open>\<^verbatim>\<open>len( self.summaries )\<close>: an unassigned attribute is \<^verbatim>\<open>None\<close> and has no length.\<close>

fun summaries_len :: "summ \<Rightarrow> error + nat" where
  "summaries_len Unassigned = Inl TypeError"
| "summaries_len (Rows rows) = Inr (length rows)"
| "summaries_len (Counts characters total_weight) = Inr 2"
| "summaries_len (Sample items weights) = Inr 2"

fun pair_row :: "double list \<Rightarrow> (double \<times> double) option" where
  "pair_row [a, b] = Some (a, b)"
| "pair_row r = None"

fun triple_row :: "double list \<Rightarrow> (double \<times> double \<times> double) option" where
  "triple_row [m, v, w] = Some (m, v, w)"
| "triple_row r = None"

text \<open>
  \<^verbatim>\<open>UniformDistribution.from_summaries(inertia=0.0)\<close>. The method does not test for an
  empty list: \<^verbatim>\<open>numpy.asarray([])\<close> has one dimension and \<^verbatim>\<open>summaries[:,0]\<close> raises
  IndexError on it.
\<close>

definition UniformDistribution_from_summaries :: "dist \<Rightarrow> double \<Rightarrow> dist outcome" where
  "UniformDistribution_from_summaries d inertia =
     (case parameters d of
        UniformDistribution prior_min prior_max \<Rightarrow>
          if frozen d then Returns d
          else (case summaries d of
                  Rows rows \<Rightarrow>
                    (case those (map pair_row rows) of
                       None \<Rightarrow> Raises IndexError d
                     | Some ps \<Rightarrow>
                         (case np_min (map fst ps) of
                            Inl e \<Rightarrow> Raises IndexError d
                          | Inr lo \<Rightarrow>
                              (case np_max (map snd ps) of
                                 Inl e \<Rightarrow> Raises IndexError d
                               | Inr hi \<Rightarrow>
                                   Returns (Dist (frozen d)
                                     (UniformDistribution
                                        (prior_min * inertia + lo * (Fin 1 - inertia))
                                        (prior_max * inertia + hi * (Fin 1 - inertia)))
                                     (Rows [])))))
                | _ \<Rightarrow> Raises IndexError d)
      | _ \<Rightarrow> Raises TypeError d)"

text \<open>
  The merge shared, line for line, by \<^verbatim>\<open>NormalDistribution.from_summaries\<close> and
  \<^verbatim>\<open>LogNormalDistribution.from_summaries\<close>, from \<^verbatim>\<open>numpy.asarray( self.summaries )\<close> to
  the computation of \<^verbatim>\<open>std\<close>: the rows are \<^verbatim>\<open>[mean, variance, weight]\<close>.
\<close>

definition merge_mean_std :: "double list list \<Rightarrow> error + (double \<times> double)" where
  "merge_mean_std rows =
     (case those (map triple_row rows) of
        None \<Rightarrow> Inl IndexError
      | Some ts \<Rightarrow>
          (let ms = map (\<lambda>(m, v, w). m) ts; ws = map (\<lambda>(m, v, w). w) ts in
           and_then (np_average ms ws) (\<lambda>mean.
             let variance = np_sum (map (\<lambda>(m, v, w). (v + m * m) * w) ts) / np_sum ws
                            - mean * mean;
                 std = (if Fin 0 \<le> variance then csqrt' variance else Fin 0)
             in Inr (mean, std))))"

text \<open>\<^verbatim>\<open>NormalDistribution.from_summaries(inertia=0.0)\<close>.\<close>

definition NormalDistribution_from_summaries :: "dist \<Rightarrow> double \<Rightarrow> dist outcome" where
  "NormalDistribution_from_summaries d inertia =
     (case parameters d of
        NormalDistribution prior_mean prior_std \<Rightarrow>
          (case summaries_len (summaries d) of
             Inl e \<Rightarrow> Raises e d
           | Inr n \<Rightarrow>
               if n = 0 \<or> frozen d then Returns d
               else (case summaries d of
                       Rows rows \<Rightarrow>
                         (case merge_mean_std rows of
                            Inl e \<Rightarrow> Raises e d
                          | Inr (mean, std) \<Rightarrow>
                              Returns (Dist (frozen d)
                                (NormalDistribution
                                   (prior_mean * inertia + mean * (Fin 1 - inertia))
                                   (prior_std * inertia + std * (Fin 1 - inertia)))
                                (Rows [])))
                     | _ \<Rightarrow> Raises IndexError d))
      | _ \<Rightarrow> Raises TypeError d)"

text \<open>\<^verbatim>\<open>LogNormalDistribution.from_summaries(inertia=0.0)\<close>.\<close>

definition LogNormalDistribution_from_summaries :: "dist \<Rightarrow> double \<Rightarrow> dist outcome" where
  "LogNormalDistribution_from_summaries d inertia =
     (case parameters d of
        LogNormalDistribution prior_mean prior_std \<Rightarrow>
          (case summaries_len (summaries d) of
             Inl e \<Rightarrow> Raises e d
           | Inr n \<Rightarrow>
               if n = 0 \<or> frozen d then Returns d
               else (case summaries d of
                       Rows rows \<Rightarrow>
                         (case merge_mean_std rows of
                            Inl e \<Rightarrow> Raises e d
                          | Inr (mean, std) \<Rightarrow>
                              Returns (Dist (frozen d)
                                (LogNormalDistribution
                                   (prior_mean * inertia + mean * (Fin 1 - inertia))
                                   (prior_std * inertia + std * (Fin 1 - inertia)))
                                (Rows [])))
                     | _ \<Rightarrow> Raises IndexError d))
      | _ \<Rightarrow> Raises TypeError d)"

text \<open>\<^verbatim>\<open>ExponentialDistribution.from_summaries(inertia=0.0)\<close>: the rows are \<^verbatim>\<open>[mean, weight]\<close>.\<close>

definition ExponentialDistribution_from_summaries :: "dist \<Rightarrow> double \<Rightarrow> dist outcome" where
  "ExponentialDistribution_from_summaries d inertia =
     (case parameters d of
        ExponentialDistribution prior_rate \<Rightarrow>
          (case summaries_len (summaries d) of
             Inl e \<Rightarrow> Raises e d
           | Inr n \<Rightarrow>
               if n = 0 \<or> frozen d then Returns d
               else (case summaries d of
                       Rows rows \<Rightarrow>
                         (case those (map pair_row rows) of
                            None \<Rightarrow> Raises IndexError d
                          | Some ps \<Rightarrow>
                              (case np_average (map fst ps) (map snd ps) of
                                 Inl e \<Rightarrow> Raises e d
                               | Inr mean \<Rightarrow>
                                   (let rate = Fin 1 / mean
                                    in Returns (Dist (frozen d)
                                         (ExponentialDistribution
                                            (prior_rate * inertia + rate * (Fin 1 - inertia)))
                                         (Rows [])))))
                     | _ \<Rightarrow> Raises IndexError d))
      | _ \<Rightarrow> Raises TypeError d)"

text \<open>
  \<^verbatim>\<open>DiscreteDistribution.from_summaries(inertia=0.0)\<close>. \<^verbatim>\<open>self.summaries\<close> is the pair
  \<^verbatim>\<open>[ {}, 0 ]\<close> from the constructor on, and is reset to it at the end.
\<close>

definition DiscreteDistribution_from_summaries :: "dist \<Rightarrow> double \<Rightarrow> dist outcome" where
  "DiscreteDistribution_from_summaries d inertia =
     (case parameters d of
        DiscreteDistribution prior_characters \<Rightarrow>
          (case summaries_len (summaries d) of
             Inl e \<Rightarrow> Raises e d
           | Inr n \<Rightarrow>
               if n = 0 \<or> frozen d then Returns d
               else (case summaries d of
                       Counts characters total_weight \<Rightarrow>
                         (let characters =
                                scale_all characters
                                  (\<lambda>prob. (prob / total_weight) * (Fin 1 - inertia));
                              characters =
                                (if Fin 0 < inertia
                                 then add_prior characters prior_characters inertia
                                 else characters)
                          in Returns (Dist (frozen d) (DiscreteDistribution characters)
                                        (Counts Map.empty (Fin 0))))
                     | _ \<Rightarrow> Raises TypeError d))
      | _ \<Rightarrow> Raises TypeError d)"

text \<open>
  \<^verbatim>\<open>Distribution.from_summaries()\<close>, the base class's, inherited by the kernel densities,
  ExtremeValue, Lambda and Mixture: \<^verbatim>\<open>self.from_sample( *self.summaries )\<close> and then
  \<^verbatim>\<open>self.summaries = []\<close>. With the empty list the call has no \<^verbatim>\<open>items\<close> argument, and
  an unassigned attribute cannot be unpacked: both are TypeErrors. The base class's
  \<^verbatim>\<open>summarize\<close> stores \<^verbatim>\<open>[items, weights]\<close>.
\<close>

definition Distribution_from_summaries :: "dist \<Rightarrow> dist outcome" where
  "Distribution_from_summaries d =
     (if frozen d then Returns d
      else (case summaries d of
              Sample items weights \<Rightarrow>
                (case from_sample d items weights None of
                   Raises e d' \<Rightarrow> Raises e d'
                 | Returns d' \<Rightarrow> Returns (set_summaries d' (Rows [])))
            | _ \<Rightarrow> Raises TypeError d))"

text \<open>
  The dynamic dispatch of \<^verbatim>\<open>d.from_summaries(inertia=...)\<close>; the base class's method has
  no \<^verbatim>\<open>inertia\<close> parameter. \<^verbatim>\<open>MultivariateDistribution.from_summaries\<close> is the last
  case.
\<close>

function from_summaries :: "dist \<Rightarrow> double option \<Rightarrow> dist outcome" where
  "from_summaries (Dist fr p su) inertia =
     (let d = Dist fr p su;
          base = (case inertia of None \<Rightarrow> Distribution_from_summaries d
                  | Some i \<Rightarrow> Raises TypeError d)
      in
      case p of
        Distribution \<Rightarrow> base
      | UniformDistribution a b \<Rightarrow>
          UniformDistribution_from_summaries d (or_default inertia (Fin 0))
      | NormalDistribution mean std \<Rightarrow>
          NormalDistribution_from_summaries d (or_default inertia (Fin 0))
      | LogNormalDistribution mu sigma \<Rightarrow>
          LogNormalDistribution_from_summaries d (or_default inertia (Fin 0))
      | ExtremeValueDistribution mu sigma epsilon \<Rightarrow> base
      | ExponentialDistribution rate \<Rightarrow>
          ExponentialDistribution_from_summaries d (or_default inertia (Fin 0))
      | DiscreteDistribution characters \<Rightarrow>
          DiscreteDistribution_from_summaries d (or_default inertia (Fin 0))
      | LambdaDistribution lambda_funct \<Rightarrow> base
      | GaussianKernelDensity points bandwidth ws \<Rightarrow> base
      | UniformKernelDensity points bandwidth ws \<Rightarrow> base
      | TriangleKernelDensity points bandwidth ws \<Rightarrow> base
      | MixtureDistribution distributions ws \<Rightarrow> base
      | MultivariateDistribution distributions ws \<Rightarrow>
          if frozen d then Returns d
          else
            (case each_child
                    (\<lambda>i child. from_summaries child (Some (or_default inertia (Fin 0))))
                    0 distributions of
               Raises e distributions' \<Rightarrow>
                 Raises e (set_parameters d (MultivariateDistribution distributions' ws))
             | Returns distributions' \<Rightarrow>
                 Returns (set_parameters d (MultivariateDistribution distributions' ws))))"
  by pat_completeness auto
termination
proof -
  have child: "size x < Suc (Suc (size_list size xs))" if "x \<in> set xs" for x :: dist and xs
    using size_list_estimation' [OF that, of "size x" size] by simp
  show ?thesis
    by (relation "measure (\<lambda>(d, inertia). size d)") (auto intro: child)
qed

section \<open>Sequences of fitting calls\<close>

text \<open>
  A caller's sequence of \<^verbatim>\<open>from_sample\<close> and \<^verbatim>\<open>from_summaries\<close> calls on one object. The
  next call runs on the state the previous one left, whether it returned or raised (a
  caller that catches the exception goes on with the same object).
\<close>

datatype call = FromSample "val list" weights_arg "double option" | FromSummaries "double option"

fun perform :: "dist \<Rightarrow> call \<Rightarrow> dist outcome" where
  "perform d (FromSample items weights inertia) = from_sample d items weights inertia"
| "perform d (FromSummaries inertia) = from_summaries d inertia"

fun run :: "dist \<Rightarrow> call list \<Rightarrow> dist" where
  "run d [] = d"
| "run d (c # cs) = run (state_of (perform d c)) cs"

section \<open>Properties\<close>

subsection \<open>Basic facts\<close>

lemma is_finE: "is_fin a \<Longrightarrow> (\<And>x. a = Fin x \<Longrightarrow> P) \<Longrightarrow> P"
  by (cases a) (simp_all add: is_fin_def)

subsection \<open>Frozen distributions\<close>

lemma frozen_from_sample:
  "frozen d \<Longrightarrow> state_of (from_sample d items weights inertia) = d"
  by (cases d)
     (simp add: Let_def Distribution_from_sample_def UniformDistribution_from_sample_def
        NormalDistribution_from_sample_def LogNormalDistribution_from_sample_def
        ExponentialDistribution_from_sample_def DiscreteDistribution_from_sample_def
        GaussianKernelDensity_from_sample_def UniformKernelDensity_from_sample_def
        TriangleKernelDensity_from_sample_def MixtureDistribution_from_sample_def
        split: params.splits option.splits)

lemma frozen_from_summaries:
  "frozen d \<Longrightarrow> state_of (from_summaries d inertia) = d"
  by (cases d)
     (simp add: Let_def Distribution_from_summaries_def UniformDistribution_from_summaries_def
        NormalDistribution_from_summaries_def LogNormalDistribution_from_summaries_def
        ExponentialDistribution_from_summaries_def DiscreteDistribution_from_summaries_def
        split: params.splits option.splits sum.splits)

lemma frozen_run: "frozen d \<Longrightarrow> run d calls = d"
proof (induction calls)
  case Nil
  then show ?case by simp
next
  case (Cons c calls)
  have "state_of (perform d c) = d"
    using Cons.prems by (cases c) (simp_all add: frozen_from_sample frozen_from_summaries)
  then show ?case
    using Cons by simp
qed

text \<open>
  C3. After \<^verbatim>\<open>freeze()\<close>, every sequence of \<^verbatim>\<open>from_sample\<close> and \<^verbatim>\<open>from_summaries\<close>
  calls, with any items, weights and inertia, leaves \<^verbatim>\<open>parameters\<close> as they were
  (and the distribution frozen, and its summaries untouched), for a distribution of any
  class.
\<close>

theorem freeze_keeps_parameters:
  "parameters (run (freeze d) calls) = parameters d
   \<and> frozen (run (freeze d) calls)
   \<and> summaries (run (freeze d) calls) = summaries d"
proof -
  have "run (freeze d) calls = freeze d"
    by (rule frozen_run) (simp add: freeze_def)
  then show ?thesis
    by (simp add: freeze_def)
qed

subsection \<open>Batched and direct fitting of a normal distribution\<close>

text \<open>
  C1. The round trip fails on \<^verbatim>\<open>d = NormalDistribution(0, 1)\<close> with the batches
  \<^verbatim>\<open>[1.0]\<close> and \<^verbatim>\<open>[1.0]\<close>, each with the weights \<^verbatim>\<open>[1.0]\<close>:
  \<^verbatim>\<open>d.summarize([1.0], [1.0]); d.summarize([1.0], [1.0]); d.from_summaries()\<close> ends with
  the standard deviation 0, and \<^verbatim>\<open>d.from_sample([1.0, 1.0], [1.0, 1.0])\<close> with 0.01:
  \<^verbatim>\<open>from_sample\<close> floors the standard deviation at \<^verbatim>\<open>min_std\<close> and \<^verbatim>\<open>from_summaries\<close>
  does not. All the arithmetic at this input is exact in doubles.
\<close>

theorem normal_round_trip_differs:
  "parameters
     (state_of (from_summaries
        (state_of (NormalDistribution_summarize
           (state_of (NormalDistribution_summarize
              (NormalDistribution_init (Fin 0) (Fin 1) None) [Num (Fin 1)] (WList [Fin 1])))
           [Num (Fin 1)] (WList [Fin 1])))
        None))
   = NormalDistribution (Fin 1) (Fin 0)
   \<and> parameters
       (state_of (from_sample (NormalDistribution_init (Fin 0) (Fin 1) None)
          ([Num (Fin 1)] @ [Num (Fin 1)]) (WList ([Fin 1] @ [Fin 1])) None))
     = NormalDistribution (Fin 1) (Fin (1 / 100))"
  by (simp add: Let_def NormalDistribution_summarize_def NormalDistribution_from_summaries_def
        NormalDistribution_from_sample_def NormalDistribution_init_def merge_mean_std_def
        fit_mean_std_def np_average_def np_dot_def ones_like_def or_default_def and_then_def
        set_summaries_def set_parameters_def minus_double_def py_max2_def)

text \<open>
  C6. The floor fails on the summaries path: after
  \<^verbatim>\<open>d = NormalDistribution(0, 1); d.summarize([1.0, 1.0], [1.0, 1.0]); d.from_summaries()\<close>,
  with inertia 0 and two items of weight 1, the parameters are \<^verbatim>\<open>[1.0, 0.0]\<close>: the
  standard deviation 0 is below the floor 0.01.
\<close>

theorem from_summaries_below_floor:
  "NormalDistribution_summarize (NormalDistribution_init (Fin 0) (Fin 1) None)
     [Num (Fin 1), Num (Fin 1)] (WList [Fin 1, Fin 1])
   = Returns (Dist False (NormalDistribution (Fin 0) (Fin 1)) (Rows [[Fin 1, Fin 0, Fin 2]]))
   \<and> from_summaries (Dist False (NormalDistribution (Fin 0) (Fin 1)) (Rows [[Fin 1, Fin 0, Fin 2]])) None
     = Returns (Dist False (NormalDistribution (Fin 1) (Fin 0)) (Rows []))
   \<and> Fin 0 < Fin (1 / 100)"
  by (simp add: Let_def NormalDistribution_summarize_def NormalDistribution_from_summaries_def
        NormalDistribution_init_def merge_mean_std_def np_average_def np_dot_def ones_like_def
        or_default_def and_then_def set_summaries_def minus_double_def)

subsection \<open>copy\<close>

text \<open>
  C4. \<^verbatim>\<open>copy()\<close> does not succeed for every class: on
  \<^verbatim>\<open>GaussianKernelDensity([1.0, 2.0])\<close> the constructor stores the weights as the numpy
  array \<^verbatim>\<open>[0.5, 0.5]\<close>, \<^verbatim>\<open>copy()\<close> passes that array back to the constructor, and
  \<^verbatim>\<open>if weights:\<close> raises ValueError on an array of two elements.
\<close>

theorem copy_kernel_density_raises:
  "GaussianKernelDensity_init [Fin 1, Fin 2] (Fin 1) WNone None
   = Inr (Dist False (GaussianKernelDensity [Fin 1, Fin 2] (Fin 1) [Fin (1 / 2), Fin (1 / 2)]) (Rows []))
   \<and> copy (Dist False (GaussianKernelDensity [Fin 1, Fin 2] (Fin 1) [Fin (1 / 2), Fin (1 / 2)]) (Rows []))
     = Inl ValueError"
  by (simp add: GaussianKernelDensity_init_def normalized_weights_def copy_def and_then_def
        or_default_def numeral_2_eq_2)

text \<open>
  C10, as the claim states it, fails on \<^verbatim>\<open>ExtremeValueDistribution(0, 1, 0, frozen=True)\<close>:
  its copy is frozen, because the constructor's default is \<^verbatim>\<open>frozen=True\<close>.
\<close>

theorem copy_extreme_value_frozen:
  "copy (ExtremeValueDistribution_init (Fin 0) (Fin 1) (Fin 0) (Some True))
   = Inr (Dist True (ExtremeValueDistribution (Fin 0) (Fin 1) (Fin 0)) Unassigned)"
  by (simp add: copy_def ExtremeValueDistribution_init_def or_default_def)

text \<open>
  C10, amended. \<^verbatim>\<open>copy()\<close> calls the constructor without the \<^verbatim>\<open>frozen\<close> keyword, so
  the copy has the default of its class whatever the original's flag: a copy of a
  Uniform, Normal, LogNormal, Exponential or Discrete distribution is not frozen, and a
  copy of an ExtremeValue or Lambda distribution is frozen.
\<close>

theorem copy_takes_default_frozen:
  "copy (UniformDistribution_init a b fz) = Inr (Dist False (UniformDistribution a b) (Rows []))
   \<and> copy (NormalDistribution_init mean std fz) = Inr (Dist False (NormalDistribution mean std) (Rows []))
   \<and> copy (LogNormalDistribution_init mu sigma fz)
       = Inr (Dist False (LogNormalDistribution mu sigma) (Rows []))
   \<and> copy (ExponentialDistribution_init rate fz)
       = Inr (Dist False (ExponentialDistribution rate) (Rows []))
   \<and> copy (DiscreteDistribution_init characters fz)
       = Inr (Dist False (DiscreteDistribution characters) (Counts Map.empty (Fin 0)))
   \<and> copy (ExtremeValueDistribution_init mu sigma epsilon fz)
       = Inr (Dist True (ExtremeValueDistribution mu sigma epsilon) Unassigned)
   \<and> copy (LambdaDistribution_init lambda_funct fz)
       = Inr (Dist True (LambdaDistribution lambda_funct) Unassigned)"
  by (simp add: copy_def UniformDistribution_init_def NormalDistribution_init_def
        LogNormalDistribution_init_def ExponentialDistribution_init_def
        DiscreteDistribution_init_def ExtremeValueDistribution_init_def
        LambdaDistribution_init_def or_default_def)

subsection \<open>Unsupported fitting\<close>

text \<open>
  C5, as the claim states it, fails on a LambdaDistribution built with the constructor's
  defaults: it is frozen, and \<^verbatim>\<open>from_sample\<close> returns before the \<^verbatim>\<open>raise\<close>.
\<close>

theorem lambda_from_sample_returns:
  "from_sample (LambdaDistribution_init (\<lambda>symbol. Fin 0) None) [Num (Fin 1)] WNone None
   = Returns (LambdaDistribution_init (\<lambda>symbol. Fin 0) None)"
  by (simp add: LambdaDistribution_init_def Distribution_from_sample_def or_default_def)

text \<open>
  C5, amended. \<^verbatim>\<open>from_sample(items, weights)\<close> on a MixtureDistribution raises
  NotImplementedError, frozen or not, and leaves the object as it was. On a
  LambdaDistribution it raises NotImplementedError when the object is not frozen; a
  frozen one, which is what the constructor's defaults build, returns silently and
  unchanged.
\<close>

theorem unsupported_from_sample:
  "from_sample (Dist fr (MixtureDistribution ds ws) su) items weights None
   = Raises NotImplementedError (Dist fr (MixtureDistribution ds ws) su)
   \<and> from_sample (Dist fr (LambdaDistribution lambda_funct) su) items weights None
     = (if fr then Returns (Dist fr (LambdaDistribution lambda_funct) su)
        else Raises NotImplementedError (Dist fr (LambdaDistribution lambda_funct) su))
   \<and> frozen (LambdaDistribution_init lambda_funct None)"
  by (simp add: MixtureDistribution_from_sample_def Distribution_from_sample_def
        LambdaDistribution_init_def or_default_def)

subsection \<open>Discrete distributions\<close>

text \<open>
  C7. \<^verbatim>\<open>from_summaries()\<close> with nothing summarized is not a no-op on
  \<^verbatim>\<open>DiscreteDistribution({'A': 0.5, 'B': 0.5})\<close>: the constructor sets
  \<^verbatim>\<open>self.summaries = [ {}, 0 ]\<close>, whose length is 2, so the test
  \<^verbatim>\<open>len( self.summaries ) == 0\<close> never holds and the parameters become the empty map.
\<close>

theorem discrete_from_summaries_wipes:
  "from_summaries
     (DiscreteDistribution_init [Str ''A'' \<mapsto> Fin (1 / 2), Str ''B'' \<mapsto> Fin (1 / 2)] None) None
   = Returns (Dist False (DiscreteDistribution Map.empty) (Counts Map.empty (Fin 0)))"
  by (simp add: DiscreteDistribution_init_def DiscreteDistribution_from_summaries_def
        scale_all_def or_default_def)

text \<open>
  C8. \<^verbatim>\<open>DiscreteDistribution({'A': 0.5, 'B': 0.5}).from_sample(['A'], weights=[0])\<close> is
  not a no-op: the only item has weight zero, the weights are divided by their sum 0,
  and the probability of \<^verbatim>\<open>'A'\<close> becomes NaN (that of \<^verbatim>\<open>'B'\<close> becomes 0).
\<close>

theorem discrete_from_sample_zero_weights:
  "from_sample
     (DiscreteDistribution_init [Str ''A'' \<mapsto> Fin (1 / 2), Str ''B'' \<mapsto> Fin (1 / 2)] None)
     [Str ''A''] (WList [Fin 0]) None
   = Returns (Dist False (DiscreteDistribution [Str ''A'' \<mapsto> NaN, Str ''B'' \<mapsto> Fin 0])
        (Counts Map.empty (Fin 0)))"
  by (auto simp add: Let_def DiscreteDistribution_init_def DiscreteDistribution_from_sample_def
        scale_all_def add_prior_def add_weight_def set_parameters_def or_default_def
        fun_eq_iff minus_double_def)

subsection \<open>Mixtures\<close>

text \<open>
  C9. On the mixture of three copies of \<^verbatim>\<open>UniformDistribution(0, 1)\<close> with the default
  weights 1/3, \<^verbatim>\<open>log_probability(0.5)\<close> is \<open>ln (2/3)\<close>: the sum runs over the first two
  children only. Each child has density 1 at 0.5, so the sum over all three children is
  1 and its log is 0.
\<close>

theorem mixture_sums_two_children:
  "MixtureDistribution_init (replicate 3 (UniformDistribution_init (Fin 0) (Fin 1) None)) WNone None
   = Inr (Dist False
        (MixtureDistribution (replicate 3 (Dist False (UniformDistribution (Fin 0) (Fin 1)) (Rows [])))
           (replicate 3 (Fin (1 / 3))))
        Unassigned)
   \<and> log_probability
       (Dist False
          (MixtureDistribution (replicate 3 (Dist False (UniformDistribution (Fin 0) (Fin 1)) (Rows [])))
             (replicate 3 (Fin (1 / 3))))
          Unassigned)
       (Num (Fin (1 / 2)))
     = Inr (Fin (ln (2 / 3)))
   \<and> ln (2 / 3) \<noteq> (0 :: real)"
  by (simp add: MixtureDistribution_init_def UniformDistribution_init_def normalized_weights_def
        MixtureDistribution_log_probability_def mixture_term_def
        UniformDistribution_log_probability_def feq_def utils_log_def minus_double_def
        py_div_def and_then_def or_default_def numeral_3_eq_3 upt_rec)

subsection \<open>log\_probability outside the support\<close>

text \<open>
  C2. \<^verbatim>\<open>LogNormalDistribution(0, 1).log_probability(0.0)\<close> is NaN, and so is
  \<^verbatim>\<open>log_probability(-1.0)\<close>. At 0.0, a point of the "non-negative floats" the class is
  documented over, the first term \<^verbatim>\<open>-clog(0.0)\<close> is positive infinity, the second,
  half the square of \<^verbatim>\<open>clog(0.0) - mu\<close>, is positive infinity too, and their difference
  is NaN. At -1.0 the log of a negative number is NaN already. The method has no test of
  the support; no rounding is involved at either input.
\<close>

theorem lognormal_log_probability_nan:
  "log_probability (LogNormalDistribution_init (Fin 0) (Fin 1) None) (Num (Fin 0)) = Inr NaN
   \<and> log_probability (LogNormalDistribution_init (Fin 0) (Fin 1) None) (Num (Fin (- 1))) = Inr NaN"
  by (simp add: LogNormalDistribution_init_def LogNormalDistribution_log_probability_def
        py_div_def and_then_def or_default_def minus_double_def SQRT_2_PI_def)

text \<open>
  The sibling classes answer a query outside their support with negative infinity:
  \<^verbatim>\<open>UniformDistribution(0, 10).log_probability(11)\<close> by its last line,
  \<^verbatim>\<open>NormalDistribution(0, 0).log_probability(1)\<close> by its test for a zero standard
  deviation, and a discrete distribution on an unseen category through \<^verbatim>\<open>_log\<close>.
\<close>

lemma sibling_support_guards:
  "log_probability (UniformDistribution_init (Fin 0) (Fin 10) None) (Num (Fin 11)) = Inr NInf"
  "log_probability (NormalDistribution_init (Fin 0) (Fin 0) None) (Num (Fin 1)) = Inr NInf"
  "log_probability
     (DiscreteDistribution_init [Str ''A'' \<mapsto> Fin (1 / 2), Str ''B'' \<mapsto> Fin (1 / 2)] None)
     (Str ''C'') = Inr NInf"
  by (simp_all add: UniformDistribution_init_def NormalDistribution_init_def
      DiscreteDistribution_init_def UniformDistribution_log_probability_def
      NormalDistribution_log_probability_def DiscreteDistribution_log_probability_def
      utils_log_def feq_def NEGINF_def and_then_def or_default_def minus_double_def)

text \<open>
  \<^verbatim>\<open>log_probability\<close> can also raise: a mixture of one child indexes a second child,
  by the bound of C9.
\<close>

lemma mixture_one_child_raises:
  "log_probability
     (Dist False
        (MixtureDistribution [Dist False (UniformDistribution (Fin 0) (Fin 1)) (Rows [])] [Fin 1])
        Unassigned)
     (Num (Fin (1 / 2)))
   = Inl IndexError"
  by (simp add: MixtureDistribution_log_probability_def mixture_term_def
      UniformDistribution_log_probability_def feq_def utils_log_def py_div_def and_then_def
      minus_double_def numeral_2_eq_2 upt_rec)

subsection \<open>What holds on the sibling paths\<close>

text \<open>
  The floor of \<^verbatim>\<open>from_sample\<close>: whatever the items and weights are, a fit that starts from
  a finite standard deviation ends with one that is at least \<^verbatim>\<open>min_std\<close>.
\<close>

lemma fit_mean_std_floor:
  assumes "is_fin prior_std" "is_fin min_std"
    and "fit_mean_std xs ws prior_std min_std = Inr (Some (mean, std))"
  shows "min_std \<le> std \<and> std \<noteq> NaN"
proof -
  obtain p m where pm: "prior_std = Fin p" "min_std = Fin m"
    using assms by (auto elim!: is_finE)
  have floor: "Fin m \<le> py_max2 s (Fin m) \<and> py_max2 s (Fin m) \<noteq> NaN" if "s \<noteq> NaN" for s
    using that by (cases s) (simp_all add: py_max2_def)
  have sqrt: "csqrt' v \<noteq> NaN" if "Fin 0 \<le> v" for v
    using that by (cases v) simp_all
  show ?thesis
    using assms(3) pm floor sqrt
    by (auto simp add: fit_mean_std_def and_then_def Let_def split: if_splits sum.splits)
qed

lemma no_nan_blend: "std \<noteq> NaN \<Longrightarrow> Fin 0 + std * (Fin 1 - Fin 0) = std"
  by (cases std) (simp_all add: minus_double_def)

text \<open>
  X1. \<^verbatim>\<open>NormalDistribution.from_sample\<close> with inertia 0, on a distribution whose standard
  deviation is finite and with a finite \<^verbatim>\<open>min_std\<close>: when the call returns, either the
  object is as it was (no data) or its new standard deviation is at least \<^verbatim>\<open>min_std\<close>.
\<close>

theorem normal_from_sample_floor:
  assumes "is_fin prior_std" "is_fin min_std"
    and "NormalDistribution_from_sample (Dist fr (NormalDistribution prior_mean prior_std) su)
           items weights (Fin 0) min_std = Returns d'"
  shows "d' = Dist fr (NormalDistribution prior_mean prior_std) su
         \<or> (\<exists>mean std. parameters d' = NormalDistribution mean std \<and> min_std \<le> std)"
proof -
  obtain p where p: "prior_std = Fin p"
    using assms(1) by (rule is_finE)
  show ?thesis
    using assms(3) fit_mean_std_floor [OF assms(1,2)] p
    by (auto simp add: NormalDistribution_from_sample_def set_parameters_def no_nan_blend
        split: if_splits option.splits sum.splits)
qed

theorem normal_from_sample_floor_witness:
  "NormalDistribution_from_sample (Dist False (NormalDistribution (Fin 0) (Fin 1)) (Rows []))
     [Num (Fin 1), Num (Fin 1)] (WList [Fin 1, Fin 1]) (Fin 0) (Fin (1 / 100))
   = Returns (Dist False (NormalDistribution (Fin 1) (Fin (1 / 100))) (Rows []))
   \<and> (\<exists>mean std.
         parameters (Dist False (NormalDistribution (Fin 1) (Fin (1 / 100))) (Rows []))
           = NormalDistribution mean std
         \<and> Fin (1 / 100) \<le> std)"
proof -
  have run: "NormalDistribution_from_sample (Dist False (NormalDistribution (Fin 0) (Fin 1)) (Rows []))
       [Num (Fin 1), Num (Fin 1)] (WList [Fin 1, Fin 1]) (Fin 0) (Fin (1 / 100))
     = Returns (Dist False (NormalDistribution (Fin 1) (Fin (1 / 100))) (Rows []))"
    by (simp add: NormalDistribution_from_sample_def fit_mean_std_def np_average_def np_dot_def
        or_default_def and_then_def set_parameters_def minus_double_def py_max2_def)
  have "is_fin (Fin 1)" "is_fin (Fin (1 / 100))"
    by (simp_all add: is_fin_def)
  from normal_from_sample_floor [OF this run] show ?thesis
    using run by simp
qed

text \<open>
  X2. \<^verbatim>\<open>from_summaries\<close> on an unfrozen Normal, LogNormal or Exponential distribution with
  the empty list of summaries returns and changes nothing; on a Uniform distribution it
  raises IndexError, the object unchanged as well.
\<close>

theorem from_summaries_nothing_accumulated:
  "from_summaries (Dist False (NormalDistribution mean std) (Rows [])) inertia
     = Returns (Dist False (NormalDistribution mean std) (Rows []))
   \<and> from_summaries (Dist False (LogNormalDistribution mu sigma) (Rows [])) inertia
     = Returns (Dist False (LogNormalDistribution mu sigma) (Rows []))
   \<and> from_summaries (Dist False (ExponentialDistribution rate) (Rows [])) inertia
     = Returns (Dist False (ExponentialDistribution rate) (Rows []))
   \<and> from_summaries (Dist False (UniformDistribution a b) (Rows [])) inertia
     = Raises IndexError (Dist False (UniformDistribution a b) (Rows []))"
  by (simp add: NormalDistribution_from_summaries_def LogNormalDistribution_from_summaries_def
      ExponentialDistribution_from_summaries_def UniformDistribution_from_summaries_def)

text \<open>
  The guards of \<^verbatim>\<open>from_sample\<close> that the discrete distribution lacks: a Uniform
  distribution drops the items whose weight is not positive, and Normal, LogNormal and
  Exponential distributions return when the weights sum to zero.
\<close>

lemma filter_no_positive_weight:
  "list_all (\<lambda>w. \<not> Fin 0 < w) ws \<Longrightarrow>
   filter (\<lambda>(item, weight). Fin 0 < weight) (zip items ws) = []"
  by (induction ws arbitrary: items) (auto simp add: zip_Cons split: list.splits)

lemma from_sample_no_data:
  "list_all (\<lambda>w. \<not> Fin 0 < w) ws \<Longrightarrow>
   from_sample (Dist False (UniformDistribution a b) su) items (WList ws) inertia
     = Returns (Dist False (UniformDistribution a b) su)"
  "np_sum ws = Fin 0 \<Longrightarrow> nums items \<noteq> None \<Longrightarrow>
   from_sample (Dist False (NormalDistribution mean std) su) items (WList ws) inertia
     = Returns (Dist False (NormalDistribution mean std) su)"
  "np_sum ws = Fin 0 \<Longrightarrow> nums items \<noteq> None \<Longrightarrow>
   from_sample (Dist False (LogNormalDistribution mu sigma) su) items (WList ws) inertia
     = Returns (Dist False (LogNormalDistribution mu sigma) su)"
  "np_sum ws = Fin 0 \<Longrightarrow> nums items \<noteq> None \<Longrightarrow>
   from_sample (Dist False (ExponentialDistribution rate) su) items (WList ws) inertia
     = Returns (Dist False (ExponentialDistribution rate) su)"
  by (auto simp add: UniformDistribution_from_sample_def NormalDistribution_from_sample_def
      LogNormalDistribution_from_sample_def ExponentialDistribution_from_sample_def
      fit_mean_std_def filter_no_positive_weight or_default_def Let_def)

end
